theory Spec2Isabelle
  imports Main
begin

section \<open>Python values, errors and the object store\<close>

text \<open>
  The strings a caller passes in are lists of 8-bit characters, read as the code points
  below 256. A raised exception is the left injection of a sum; \<open>KeyError\<close> holds the
  missing key, \<open>OtherError\<close> the name of any other exception class, the rest hold the
  message. \<open>OutOfModel\<close> is not a Python exception: \<open>str_format\<close> below returns it for
  a replacement field with an attribute, an index, a conversion or a format spec, whose
  rendering this development does not cover.
\<close>

datatype error =
    ValueError string
  | KeyError string
  | IndexError string
  | TypeError string
  | OtherError string
  | OutOfModel string

text \<open>
  A value of type \<open>Any\<close> is a string, or an object of another type, given by what
  \<open>format(value, "")\<close> does with it: the string it returns or the exception it raises.
  For a number and for every type that does not define \<open>__format__\<close> the string is
  \<open>str(value)\<close>; the integer 30 is \<open>VObj (Inr ''30'')\<close>.
\<close>

datatype pyval = VStr string | VObj "error + string"

text \<open>
  The upper-case form of a character below 256 can be a code point above 255, so the
  strings that \<open>str.upper\<close> goes into are lists of code points.
\<close>

type_synonym ustr = "nat list"

definition code_points :: "string \<Rightarrow> ustr" where
  "code_points s = map of_char s"

text \<open>
  Python lists and dicts are objects with identity. The store keeps list objects (lists of
  references to dicts) and dict objects (string keys, string values) in two tables; a
  reference is an index into its table and a new object goes at the end of its table.
\<close>

type_synonym addr = nat

record heap =
  lists :: "addr list list"
  dicts :: "(string \<rightharpoonup> string) list"

definition new_list :: "addr list \<Rightarrow> heap \<Rightarrow> addr \<times> heap" where
  "new_list xs h = (length (lists h), h\<lparr>lists := lists h @ [xs]\<rparr>)"

definition new_dict :: "(string \<rightharpoonup> string) \<Rightarrow> heap \<Rightarrow> addr \<times> heap" where
  "new_dict d h = (length (dicts h), h\<lparr>dicts := dicts h @ [d]\<rparr>)"

definition list_append :: "addr \<Rightarrow> addr \<Rightarrow> heap \<Rightarrow> heap" where
  "list_append l x h = h\<lparr>lists := (lists h)[l := lists h ! l @ [x]]\<rparr>"

definition list_copy :: "addr \<Rightarrow> heap \<Rightarrow> addr \<times> heap" where
  "list_copy l h = new_list (lists h ! l) h"

definition dict_setitem :: "addr \<Rightarrow> string \<Rightarrow> string \<Rightarrow> heap \<Rightarrow> heap" where
  "dict_setitem d k v h = h\<lparr>dicts := (dicts h)[d := (dicts h ! d)(k \<mapsto> v)]\<rparr>"

text \<open>\<open>del d[k]\<close>, which raises \<open>KeyError\<close> when the key is not there.\<close>

definition dict_delitem :: "addr \<Rightarrow> string \<Rightarrow> heap \<Rightarrow> error + heap" where
  "dict_delitem d k h =
     (case (dicts h ! d) k of
        None \<Rightarrow> Inl (KeyError k)
      | Some v \<Rightarrow> Inr (h\<lparr>dicts := (dicts h)[d := (dicts h ! d)(k := None)]\<rparr>))"

definition deref_list :: "heap \<Rightarrow> addr \<Rightarrow> (string \<rightharpoonup> string) list" where
  "deref_list h l = map (\<lambda>a. dicts h ! a) (lists h ! l)"

section \<open>PromptBuilder\<close>

record prompt_builder =
  messages :: addr
  context_map :: "string \<rightharpoonup> pyval"

type_synonym state = "heap \<times> prompt_builder"

text \<open>\<open>__init__\<close>: a new empty list object; the context dict is kept in the record.\<close>

definition builder_init :: "heap \<Rightarrow> state" where
  "builder_init h =
     (let (l, h1) = new_list [] h
      in (h1, \<lparr>messages = l, context_map = Map.empty\<rparr>))"

definition add_system :: "string \<Rightarrow> state \<Rightarrow> state" where
  "add_system content = (\<lambda>(h, b).
     let (d, h1) = new_dict [''role'' \<mapsto> ''system'', ''content'' \<mapsto> content] h
     in (list_append (messages b) d h1, b))"

definition add_user :: "string \<Rightarrow> state \<Rightarrow> state" where
  "add_user content = (\<lambda>(h, b).
     let (d, h1) = new_dict [''role'' \<mapsto> ''user'', ''content'' \<mapsto> content] h
     in (list_append (messages b) d h1, b))"

definition add_assistant :: "string \<Rightarrow> state \<Rightarrow> state" where
  "add_assistant content = (\<lambda>(h, b).
     let (d, h1) = new_dict [''role'' \<mapsto> ''assistant'', ''content'' \<mapsto> content] h
     in (list_append (messages b) d h1, b))"

definition add_message :: "string \<Rightarrow> string \<Rightarrow> state \<Rightarrow> state" where
  "add_message role content = (\<lambda>(h, b).
     let (d, h1) = new_dict [''role'' \<mapsto> role, ''content'' \<mapsto> content] h
     in (list_append (messages b) d h1, b))"

definition set_context :: "string \<Rightarrow> pyval \<Rightarrow> state \<Rightarrow> state" where
  "set_context key val = (\<lambda>(h, b). (h, b\<lparr>context_map := (context_map b)(key \<mapsto> val)\<rparr>))"

definition clear :: "state \<Rightarrow> state" where
  "clear = (\<lambda>(h, b).
     let (l, h1) = new_list [] h
     in (h1, b\<lparr>messages := l, context_map := Map.empty\<rparr>))"

text \<open>
  \<open>str.upper\<close> on the code points below 256: the letters a to z and U+00E0 to U+00FE
  (but the division sign U+00F7) go 32 down, the sharp s U+00DF becomes SS, the micro
  sign U+00B5 becomes U+039C, U+00FF becomes U+0178, and every other one stays.
\<close>

definition upper_char :: "char \<Rightarrow> ustr" where
  "upper_char c =
     (let n = (of_char c :: nat) in
      if (97 \<le> n \<and> n \<le> 122) \<or> (224 \<le> n \<and> n \<le> 254 \<and> n \<noteq> 247) then [n - 32]
      else if n = 223 then [83, 83]
      else if n = 181 then [924]
      else if n = 255 then [376]
      else [n])"

definition upper :: "string \<Rightarrow> ustr" where
  "upper s = concat (map upper_char s)"

text \<open>\<open>sep.join(parts)\<close>.\<close>

fun join :: "'a list \<Rightarrow> 'a list list \<Rightarrow> 'a list" where
  "join sep [] = []"
| "join sep [p] = p"
| "join sep (p # q # ps) = p @ sep @ join sep (q # ps)"

text \<open>
  The loop of \<open>_build_string\<close>, with \<open>parts\<close> as its accumulator. \<open>msg["role"]\<close> and
  \<open>msg["content"]\<close> raise \<open>KeyError\<close> on a dict without the key.
\<close>

fun build_string_loop :: "heap \<Rightarrow> addr list \<Rightarrow> ustr list \<Rightarrow> error + ustr list" where
  "build_string_loop h [] parts = Inr parts"
| "build_string_loop h (msg # msgs) parts =
     (case (dicts h ! msg) ''role'' of
        None \<Rightarrow> Inl (KeyError ''role'')
      | Some role \<Rightarrow>
          (case (dicts h ! msg) ''content'' of
             None \<Rightarrow> Inl (KeyError ''content'')
           | Some content \<Rightarrow>
               build_string_loop h msgs
                 (parts @ [upper role @ code_points '': '' @ code_points content])))"

definition build_string :: "state \<Rightarrow> error + ustr" where
  "build_string = (\<lambda>(h, b).
     case build_string_loop h (lists h ! messages b) [] of
       Inl e \<Rightarrow> Inl e
     | Inr parts \<Rightarrow> Inr (join [10, 10] parts))"

text \<open>
  What \<open>build\<close> returns: a reference to a list, a string, or the one-entry record
  \<open>{"messages": l}\<close>, kept as the reference \<open>l\<close>.
\<close>

datatype build_result = Messages addr | String ustr | Chat addr

definition build_chat_format :: "state \<Rightarrow> build_result \<times> state" where
  "build_chat_format = (\<lambda>(h, b).
     let (l, h1) = list_copy (messages b) h in (Chat l, (h1, b)))"

definition build :: "string \<Rightarrow> state \<Rightarrow> (error + build_result) \<times> state" where
  "build format = (\<lambda>(h, b).
     if format = ''messages'' then
       (let (l, h1) = list_copy (messages b) h in (Inr (Messages l), (h1, b)))
     else if format = ''string'' then
       (case build_string (h, b) of
          Inl e \<Rightarrow> (Inl e, (h, b))
        | Inr s \<Rightarrow> (Inr (String s), (h, b)))
     else if format = ''chat'' then
       (let (r, s1) = build_chat_format (h, b) in (Inr r, s1))
     else (Inl (ValueError (''Unknown format: '' @ format)), (h, b)))"

definition builder_len :: "state \<Rightarrow> nat" where
  "builder_len = (\<lambda>(h, b). length (lists h ! messages b))"

definition builder_str :: "state \<Rightarrow> error + ustr" where
  "builder_str s = build_string s"

text \<open>
  A sequence of calls of the four appending operations, for statements about every such
  sequence.
\<close>

datatype call = AddSystem string | AddUser string | AddAssistant string | AddMessage string string

fun apply_call :: "call \<Rightarrow> state \<Rightarrow> state" where
  "apply_call (AddSystem content) s = add_system content s"
| "apply_call (AddUser content) s = add_user content s"
| "apply_call (AddAssistant content) s = add_assistant content s"
| "apply_call (AddMessage role content) s = add_message role content s"

definition run :: "call list \<Rightarrow> state \<Rightarrow> state" where
  "run calls s = fold apply_call calls s"

text \<open>The role and the content a call appends, and the dict \<open>{"role": r, "content": c}\<close>.\<close>

fun message_of :: "call \<Rightarrow> string \<times> string" where
  "message_of (AddSystem content) = (''system'', content)"
| "message_of (AddUser content) = (''user'', content)"
| "message_of (AddAssistant content) = (''assistant'', content)"
| "message_of (AddMessage role content) = (role, content)"

definition message_dict :: "string \<times> string \<Rightarrow> (string \<rightharpoonup> string)" where
  "message_dict = (\<lambda>(role, content). [''role'' \<mapsto> role, ''content'' \<mapsto> content])"

definition message_fields :: "(string \<rightharpoonup> string) \<Rightarrow> (string \<times> string) option" where
  "message_fields d =
     (case d ''role'' of
        None \<Rightarrow> None
      | Some role \<Rightarrow> (case d ''content'' of None \<Rightarrow> None | Some content \<Rightarrow> Some (role, content)))"

text \<open>
  The builder's references point into the store: Python has no dangling reference, so
  every state a program can reach is well formed in this sense.
\<close>

definition well_formed :: "state \<Rightarrow> bool" where
  "well_formed = (\<lambda>(h, b). messages b < length (lists h)
                  \<and> (\<forall>a \<in> set (lists h ! messages b). a < length (dicts h)))"

text \<open>
  What a caller sees of a result of \<open>build\<close>: the dicts of the returned list, in order,
  or the string, or the exception.
\<close>

datatype observed =
    ObsMessages "(string \<rightharpoonup> string) list"
  | ObsString ustr
  | ObsChat "(string \<rightharpoonup> string) list"

definition observe :: "(error + build_result) \<times> state \<Rightarrow> error + observed" where
  "observe = (\<lambda>(res, (h, b)).
     case res of
       Inl e \<Rightarrow> Inl e
     | Inr (Messages l) \<Rightarrow> Inr (ObsMessages (deref_list h l))
     | Inr (String s) \<Rightarrow> Inr (ObsString s)
     | Inr (Chat l) \<Rightarrow> Inr (ObsChat (deref_list h l)))"

text \<open>
  \<open>list_mutation l h h'\<close>: the store \<open>h'\<close> comes from \<open>h\<close> by writes to the list object
  \<open>l\<close> and to objects allocated since; every other list and every dict of \<open>h\<close> is as it
  was. Appending to \<open>l\<close>, deleting from it, replacing or reordering its elements, also
  with new dicts, are all of this kind.
\<close>

definition list_mutation :: "addr \<Rightarrow> heap \<Rightarrow> heap \<Rightarrow> bool" where
  "list_mutation l h h' \<longleftrightarrow>
     length (lists h) \<le> length (lists h')
     \<and> (\<forall>a < length (lists h). a \<noteq> l \<longrightarrow> lists h' ! a = lists h ! a)
     \<and> length (dicts h) \<le> length (dicts h')
     \<and> (\<forall>d < length (dicts h). dicts h' ! d = dicts h ! d)"

text \<open>The line of one message in the "string" format, as the specification words it.\<close>

definition line_of :: "string \<times> string \<Rightarrow> ustr" where
  "line_of = (\<lambda>(role, content). upper role @ code_points '': '' @ code_points content)"

definition empty_heap :: heap where
  "empty_heap = \<lparr>lists = [], dicts = []\<rparr>"

section \<open>PromptTemplate\<close>

record prompt_template =
  template :: string
  defaults :: "string \<rightharpoonup> pyval"

subsection \<open>Built-ins: \<open>format\<close>, \<open>repr\<close>, \<open>str.format\<close>, \<open>re.findall\<close>\<close>

text \<open>The decimal numeral of a number, as \<open>%zd\<close> prints it in an error message.\<close>

fun decimal :: "nat \<Rightarrow> string" where
  "decimal n =
     (if n < 10 then [''0123456789'' ! n]
      else decimal (n div 10) @ [''0123456789'' ! (n mod 10)])"

declare decimal.simps [simp del]

text \<open>
  \<open>format(v, "")\<close>, which is what \<open>str.format\<close> puts in the place of a field with no
  conversion and no format spec: a string is itself, another object gives what its
  \<open>__format__\<close> gives.
\<close>

definition py_format :: "pyval \<Rightarrow> error + string" where
  "py_format v = (case v of VStr s \<Rightarrow> Inr s | VObj r \<Rightarrow> r)"

text \<open>
  \<open>repr(s)\<close> of a string, which is what \<open>str(KeyError(s))\<close> gives: double quotes when
  the string has a single quote and no double quote, single quotes otherwise; the
  quote and the backslash escaped with a backslash; tab, newline and carriage return
  as \<open>\t\<close>, \<open>\n\<close>, \<open>\r\<close>; the other code points that are not printable (below 32, 127
  to 160, and 173) as \<open>\xhh\<close>.
\<close>

definition repr_char :: "char \<Rightarrow> char \<Rightarrow> string" where
  "repr_char quote c =
     (let n = (of_char c :: nat) in
      if c = quote \<or> c = CHR 0x5C then [CHR 0x5C, c]
      else if c = CHR 0x09 then [CHR 0x5C, CHR ''t'']
      else if c = CHR 0x0A then [CHR 0x5C, CHR ''n'']
      else if c = CHR 0x0D then [CHR 0x5C, CHR ''r'']
      else if n < 32 \<or> (127 \<le> n \<and> n \<le> 160) \<or> n = 173 then
        [CHR 0x5C, CHR ''x'', ''0123456789abcdef'' ! (n div 16), ''0123456789abcdef'' ! (n mod 16)]
      else [c])"

definition py_repr :: "string \<Rightarrow> string" where
  "py_repr s =
     (let quote = (if CHR 0x27 \<in> set s \<and> CHR 0x22 \<notin> set s then CHR 0x22 else CHR 0x27)
      in quote # concat (map (repr_char quote) s) @ [quote])"

text \<open>
  \<open>str.format\<close> with keyword arguments only, as \<open>PromptTemplate.format\<close> calls it. The
  format string is read from left to right, one literal run and one replacement field
  at a time, and each field is rendered before the text after it is read; so the
  tokens below end at the first malformed place, with the exception raised there.

  A replacement field is \<open>{field_name!conversion:format_spec}\<close>, the last two optional.
  The field name ends at the first \<open>}\<close>, \<open>:\<close> or \<open>!\<close> outside square brackets and has
  no \<open>{\<close> outside them.
\<close>

fun scan_field_name :: "bool \<Rightarrow> string \<Rightarrow> string \<Rightarrow> error + (string \<times> char \<times> string)" where
  "scan_field_name in_brackets name [] = Inl (ValueError ''expected '}' before end of string'')"
| "scan_field_name True name (c # cs) = scan_field_name (c \<noteq> CHR '']'') (name @ [c]) cs"
| "scan_field_name False name (c # cs) =
     (if c = CHR ''{'' then Inl (ValueError ''unexpected '{' in field name'')
      else if c = CHR ''['' then scan_field_name True (name @ [c]) cs
      else if c = CHR ''}'' \<or> c = CHR '':'' \<or> c = CHR ''!'' then Inr (name, c, cs)
      else scan_field_name False (name @ [c]) cs)"

text \<open>The format spec runs to the \<open>}\<close> that closes the field, braces inside it nesting.\<close>

fun scan_format_spec :: "nat \<Rightarrow> string \<Rightarrow> string \<Rightarrow> error + (string \<times> string)" where
  "scan_format_spec count spec [] = Inl (ValueError ''unmatched '{' in format spec'')"
| "scan_format_spec count spec (c # cs) =
     (if c = CHR ''{'' then scan_format_spec (count + 1) (spec @ [c]) cs
      else if c = CHR ''}'' then
        (if count = 1 then Inr (spec, cs) else scan_format_spec (count - 1) (spec @ [c]) cs)
      else scan_format_spec count (spec @ [c]) cs)"

type_synonym field = "string \<times> char option \<times> string"

definition parse_field :: "string \<Rightarrow> error + (field \<times> string)" where
  "parse_field s =
     (case scan_field_name False [] s of
        Inl e \<Rightarrow> Inl e
      | Inr (name, c, rest) \<Rightarrow>
          if c = CHR ''}'' then Inr ((name, None, []), rest)
          else if c = CHR ''!'' then
            (case rest of
               [] \<Rightarrow> Inl (ValueError ''end of string while looking for conversion specifier'')
             | conversion # [] \<Rightarrow> Inl (ValueError ''unmatched '{' in format spec'')
             | conversion # c1 # rest1 \<Rightarrow>
                 if c1 = CHR ''}'' then Inr ((name, Some conversion, []), rest1)
                 else if c1 \<noteq> CHR '':'' then
                   Inl (ValueError ''expected ':' after conversion specifier'')
                 else
                   (case scan_format_spec 1 [] rest1 of
                      Inl e \<Rightarrow> Inl e
                    | Inr (spec, rest2) \<Rightarrow> Inr ((name, Some conversion, spec), rest2)))
          else
            (case scan_format_spec 1 [] rest of
               Inl e \<Rightarrow> Inl e
             | Inr (spec, rest2) \<Rightarrow> Inr ((name, None, spec), rest2)))"

lemma scan_field_name_length:
  "scan_field_name br name s = Inr (name', c, rest) \<Longrightarrow> length rest < length s"
  by (induction br name s rule: scan_field_name.induct) (auto split: if_splits)

lemma scan_format_spec_length:
  "scan_format_spec count spec s = Inr (spec', rest) \<Longrightarrow> length rest < length s"
  by (induction count spec s rule: scan_format_spec.induct) (auto split: if_splits)

lemma parse_field_length:
  assumes "parse_field s = Inr (f, rest)"
  shows "length rest < length s"
  using assms
  by (auto simp: parse_field_def split: sum.splits if_splits list.splits prod.splits
      dest!: scan_field_name_length scan_format_spec_length)

datatype token = Literal string | Field field | Bad error

definition is_brace :: "char \<Rightarrow> bool" where
  "is_brace c \<longleftrightarrow> c = CHR ''{'' \<or> c = CHR ''}''"

text \<open>
  The tokens of a format string. A literal run ends at the first brace; a doubled brace
  stands for one brace of literal text; a single \<open>}\<close>, and a \<open>{\<close> at the very end,
  are errors; any other \<open>{\<close> opens a replacement field.
\<close>

function markup :: "string \<Rightarrow> token list" where
  "markup s =
     (if s = [] then []
      else
        (case dropWhile (\<lambda>c. \<not> is_brace c) s of
           [] \<Rightarrow> [Literal s]
         | c # rest \<Rightarrow>
             if c = CHR ''}'' \<and> (rest = [] \<or> hd rest \<noteq> CHR ''}'') then
               [Bad (ValueError ''Single '}' encountered in format string'')]
             else if c = CHR ''{'' \<and> rest = [] then
               [Bad (ValueError ''Single '{' encountered in format string'')]
             else if hd rest = c then
               Literal (takeWhile (\<lambda>c. \<not> is_brace c) s @ [c]) # markup (tl rest)
             else
               (case parse_field rest of
                  Inl e \<Rightarrow> [Bad e]
                | Inr (f, rest1) \<Rightarrow>
                    Literal (takeWhile (\<lambda>c. \<not> is_brace c) s) # Field f # markup rest1)))"
  by pat_completeness auto
termination
proof (relation "measure length")
  show "wf (measure length)" by simp
next
  fix s :: string and c rest
  assume "dropWhile (\<lambda>c. \<not> is_brace c) s = c # rest"
  then have "length s \<ge> Suc (length rest)"
    using length_dropWhile_le [of "\<lambda>c. \<not> is_brace c" s] by simp
  moreover assume "\<not> (c = CHR ''{'' \<and> rest = [])" "\<not> (c = CHR ''}'' \<and> (rest = [] \<or> hd rest \<noteq> CHR ''}''))" "hd rest = c"
  ultimately show "(tl rest, s) \<in> measure length"
    by (cases rest) auto
next
  fix s :: string and c rest x2 f rest1
  assume "dropWhile (\<lambda>c. \<not> is_brace c) s = c # rest"
  then have "length s \<ge> Suc (length rest)"
    using length_dropWhile_le [of "\<lambda>c. \<not> is_brace c" s] by simp
  moreover assume "parse_field rest = Inr x2" "(f, rest1) = x2"
  then have "length rest1 < length rest"
    using parse_field_length [of rest f rest1] by simp
  ultimately show "(rest1, s) \<in> measure length" by simp
qed

declare markup.simps [simp del]

text \<open>
  Rendering one field with no positional arguments. The part of the name before the
  first \<open>.\<close> or \<open>[\<close> picks the argument. It is read as a number from the left, one
  decimal digit at a time: a character that is not a decimal digit ends the reading
  with no number, and a digit that takes the number above \<open>PY_SSIZE_T_MAX\<close> (\<open>2^63 - 1\<close>,
  as on a 64-bit build) raises \<open>ValueError\<close> before the rest is looked at. An empty
  part is the next automatic index, which is 0 since no field before it was numbered;
  a number is an index; both ask for a positional argument, and there is none. Anything
  else is a keyword. A field with an attribute or index after that part, with a
  conversion or with a format spec is outside this development once its argument is
  found.
\<close>

definition is_digit :: "char \<Rightarrow> bool" where
  "is_digit c \<longleftrightarrow> c \<in> set ''0123456789''"

definition digit_value :: "char \<Rightarrow> nat" where
  "digit_value c = of_char c - 48"

definition ssize_t_max :: nat where
  "ssize_t_max = 2 ^ 63 - 1"

fun get_integer_loop :: "nat \<Rightarrow> string \<Rightarrow> error + nat option" where
  "get_integer_loop accumulator [] = Inr (Some accumulator)"
| "get_integer_loop accumulator (c # cs) =
     (if \<not> is_digit c then Inr None
      else if accumulator > (ssize_t_max - digit_value c) div 10 then
        Inl (ValueError ''Too many decimal digits in format string'')
      else get_integer_loop (accumulator * 10 + digit_value c) cs)"

definition get_integer :: "string \<Rightarrow> error + nat option" where
  "get_integer s = (if s = [] then Inr None else get_integer_loop 0 s)"

definition render_field :: "(string \<rightharpoonup> pyval) \<Rightarrow> field \<Rightarrow> error + string" where
  "render_field kwargs = (\<lambda>(name, conversion, spec).
     let first = takeWhile (\<lambda>c. c \<noteq> CHR ''.'' \<and> c \<noteq> CHR ''['') name in
     case get_integer first of
       Inl e \<Rightarrow> Inl e
     | Inr first_idx \<Rightarrow>
         if first = [] \<or> first_idx \<noteq> None then
           Inl (IndexError (''Replacement index ''
                              @ decimal (case first_idx of None \<Rightarrow> 0 | Some i \<Rightarrow> i)
                              @ '' out of range for positional args tuple''))
         else
           (case kwargs first of
              None \<Rightarrow> Inl (KeyError first)
            | Some v \<Rightarrow>
                if first \<noteq> name then Inl (OutOfModel ''attribute or index access'')
                else if conversion \<noteq> None then Inl (OutOfModel ''conversion'')
                else if spec \<noteq> [] then Inl (OutOfModel ''format spec'')
                else py_format v))"

fun render :: "(string \<rightharpoonup> pyval) \<Rightarrow> token list \<Rightarrow> string \<Rightarrow> error + string" where
  "render kwargs [] out = Inr out"
| "render kwargs (Literal text # ts) out = render kwargs ts (out @ text)"
| "render kwargs (Field f # ts) out =
     (case render_field kwargs f of
        Inl e \<Rightarrow> Inl e
      | Inr text \<Rightarrow> render kwargs ts (out @ text))"
| "render kwargs (Bad e # ts) out = Inl e"

definition str_format :: "string \<Rightarrow> (string \<rightharpoonup> pyval) \<Rightarrow> error + string" where
  "str_format s kwargs = render kwargs (markup s) []"

text \<open>
  \<open>re.findall(r'\{([^}]+)\}', s)\<close>. A match at the start of \<open>s\<close> is a \<open>{\<close>, then as
  many characters other than \<open>}\<close> as there are, at least one, then a \<open>}\<close>: the run is
  greedy and what follows it must be a \<open>}\<close>, so no shorter run matches. \<open>findall\<close>
  tries each position from the left, goes on after the end of a match, and returns
  the text of the group.
\<close>

definition re_match :: "string \<Rightarrow> (string \<times> string) option" where
  "re_match s =
     (case s of
        [] \<Rightarrow> None
      | c # cs \<Rightarrow>
          if c = CHR ''{'' \<and> takeWhile (\<lambda>c. c \<noteq> CHR ''}'') cs \<noteq> [] then
            (case dropWhile (\<lambda>c. c \<noteq> CHR ''}'') cs of
               [] \<Rightarrow> None
             | d # rest \<Rightarrow> Some (takeWhile (\<lambda>c. c \<noteq> CHR ''}'') cs, rest))
          else None)"

lemma re_match_length: "re_match s = Some (g, rest) \<Longrightarrow> length rest < length s"
proof -
  assume a: "re_match s = Some (g, rest)"
  then obtain c cs where s: "s = c # cs" by (cases s) (auto simp: re_match_def)
  with a obtain d where "dropWhile (\<lambda>c. c \<noteq> CHR ''}'') cs = d # rest"
    by (auto simp: re_match_def split: if_splits list.splits)
  then have "Suc (length rest) \<le> length cs"
    using length_dropWhile_le [of "\<lambda>c. c \<noteq> CHR ''}''" cs] by simp
  with s show ?thesis by simp
qed

function re_findall :: "string \<Rightarrow> string list" where
  "re_findall s =
     (if s = [] then []
      else
        (case re_match s of
           Some (g, rest) \<Rightarrow> g # re_findall rest
         | None \<Rightarrow> re_findall (tl s)))"
  by pat_completeness auto
termination
  by (relation "measure length") (auto dest: re_match_length)

declare re_findall.simps [simp del]

subsection \<open>The methods of PromptTemplate\<close>

text \<open>
  A template object is the record of its two attributes. \<open>format\<close> and \<open>validate\<close> are
  declared as \<open>(self, **kwargs)\<close>: a call that passes a keyword argument named \<open>self\<close>
  raises \<open>TypeError\<close> before the body runs. \<open>{**self.defaults, **kwargs}\<close> is
  \<open>defaults ++ kwargs\<close>, a new dict. \<open>str(e)\<close> of the \<open>KeyError\<close> that \<open>str.format\<close> raises
  is \<open>repr\<close> of the key. The methods return the template object next to their result,
  so that what they do to it can be stated.
\<close>

definition multiple_values :: "string \<Rightarrow> error" where
  "multiple_values method =
     TypeError (''PromptTemplate.'' @ method @ ''() got multiple values for argument ''
                  @ [CHR 0x27] @ ''self'' @ [CHR 0x27])"

definition format :: "prompt_template \<Rightarrow> (string \<rightharpoonup> pyval) \<Rightarrow> (error + string) \<times> prompt_template" where
  "format self kwargs =
     (if kwargs ''self'' \<noteq> None then (Inl (multiple_values ''format''), self)
      else
        let variables = defaults self ++ kwargs in
        case str_format (template self) variables of
          Inl (KeyError k) \<Rightarrow>
            (Inl (ValueError (''Missing required template variable: '' @ py_repr k)), self)
        | Inl e \<Rightarrow> (Inl e, self)
        | Inr text \<Rightarrow> (Inr text, self))"

definition get_variables :: "prompt_template \<Rightarrow> string list" where
  "get_variables self = re_findall (template self)"

definition validate :: "prompt_template \<Rightarrow> (string \<rightharpoonup> pyval) \<Rightarrow> (error + bool) \<times> prompt_template" where
  "validate self kwargs =
     (if kwargs ''self'' \<noteq> None then (Inl (multiple_values ''validate''), self)
      else
        let variables = defaults self ++ kwargs;
            required_vars = set (get_variables self);
            provided_vars = dom variables
        in (Inr (required_vars \<subseteq> provided_vars), self))"

section \<open>The specification's descriptions, as definitions\<close>

text \<open>
  The placeholder scan in the words of the specification: from the left, each span from
  a \<open>{\<close> to the next \<open>}\<close>, one after the other, with the text between the two as the
  identifier.
\<close>

function spec_spans :: "string \<Rightarrow> string list" where
  "spec_spans s =
     (case dropWhile (\<lambda>c. c \<noteq> CHR ''{'') s of
        [] \<Rightarrow> []
      | c # cs \<Rightarrow>
          (case dropWhile (\<lambda>c. c \<noteq> CHR ''}'') cs of
             [] \<Rightarrow> []
           | d # rest \<Rightarrow> takeWhile (\<lambda>c. c \<noteq> CHR ''}'') cs # spec_spans rest))"
  by pat_completeness auto
termination
proof (relation "measure length")
  show "wf (measure length)" by simp
next
  fix s :: string and c cs d rest
  assume "dropWhile (\<lambda>c. c \<noteq> CHR ''{'') s = c # cs" "dropWhile (\<lambda>c. c \<noteq> CHR ''}'') cs = d # rest"
  then have "Suc (length cs) \<le> length s" "Suc (length rest) \<le> length cs"
    using length_dropWhile_le [of "\<lambda>c. c \<noteq> CHR ''{''" s]
      length_dropWhile_le [of "\<lambda>c. c \<noteq> CHR ''}''" cs] by simp_all
  then show "(rest, s) \<in> measure length" by simp
qed

declare spec_spans.simps [simp del]

text \<open>
  The effective mapping in the words of the specification: the value of the override
  where there is one, the default otherwise.
\<close>

definition effective :: "prompt_template \<Rightarrow> (string \<rightharpoonup> pyval) \<Rightarrow> (string \<rightharpoonup> pyval)" where
  "effective t overrides k =
     (case overrides k of
        Some v \<Rightarrow> Some v
      | None \<Rightarrow> defaults t k)"















section \<open>Properties of PromptBuilder\<close>

subsection \<open>Appending and the view of the message list\<close>

lemma new_dict_simps:
  "fst (new_dict d h) = length (dicts h)"
  "lists (snd (new_dict d h)) = lists h"
  "dicts (snd (new_dict d h)) = dicts h @ [d]"
  by (simp_all add: new_dict_def)

lemma append_step:
  assumes "well_formed (h, b)"
  shows "well_formed (list_append (messages b) (length (dicts h)) (h\<lparr>dicts := dicts h @ [d]\<rparr>), b)
       \<and> deref_list (list_append (messages b) (length (dicts h)) (h\<lparr>dicts := dicts h @ [d]\<rparr>)) (messages b)
           = deref_list h (messages b) @ [d]"
  using assms
  by (auto simp: well_formed_def list_append_def deref_list_def nth_append less_Suc_eq)

lemma apply_call_step:
  assumes "well_formed (h, b)"
  shows "\<exists>h'. apply_call c (h, b) = (h', b) \<and> well_formed (h', b)
       \<and> deref_list h' (messages b) = deref_list h (messages b) @ [message_dict (message_of c)]"
  using append_step [OF assms]
  by (cases c) (simp_all add: add_system_def add_user_def add_assistant_def add_message_def
      new_dict_def message_dict_def)

lemma run_view:
  assumes "well_formed (h, b)"
  shows "\<exists>h'. run calls (h, b) = (h', b) \<and> well_formed (h', b)
       \<and> deref_list h' (messages b) = deref_list h (messages b) @ map (message_dict \<circ> message_of) calls"
  using assms
proof (induction calls arbitrary: h)
  case Nil
  then show ?case by (simp add: run_def)
next
  case (Cons c calls)
  from apply_call_step [OF Cons.prems, of c] obtain h1 where
    s: "apply_call c (h, b) = (h1, b)" and w: "well_formed (h1, b)"
    and v: "deref_list h1 (messages b) = deref_list h (messages b) @ [message_dict (message_of c)]"
    by blast
  from Cons.IH [OF w] obtain h' where
    "run calls (h1, b) = (h', b)" "well_formed (h', b)"
    "deref_list h' (messages b) = deref_list h1 (messages b) @ map (message_dict \<circ> message_of) calls"
    by blast
  with s v show ?case by (simp add: run_def)
qed

lemma well_formed_builder_init: "well_formed (builder_init h)" "deref_list (fst (builder_init h)) (messages (snd (builder_init h))) = []"
  by (simp_all add: builder_init_def new_list_def well_formed_def deref_list_def)

lemma well_formed_clear: "well_formed (clear s)" "deref_list (fst (clear s)) (messages (snd (clear s))) = []"
  by (cases s; simp add: clear_def new_list_def well_formed_def deref_list_def)+

lemma build_messages_view:
  assumes "well_formed (h, b)"
  shows "\<exists>l h'. build ''messages'' (h, b) = (Inr (Messages l), (h', b))
           \<and> deref_list h' l = deref_list h (messages b)"
  using assms by (simp add: build_def list_copy_def new_list_def deref_list_def well_formed_def)

lemma len_view: "builder_len (h, b) = length (deref_list h (messages b))"
  by (simp add: builder_len_def deref_list_def)

lemma fresh_run:
  assumes "well_formed s" and "deref_list (fst s) (messages (snd s)) = []"
  shows "builder_len (run calls s) = length calls
     \<and> (\<exists>l h' b'. build ''messages'' (run calls s) = (Inr (Messages l), (h', b'))
           \<and> deref_list h' l = map (message_dict \<circ> message_of) calls)"
proof -
  obtain h b where s: "s = (h, b)" by (cases s)
  from assms s have w: "well_formed (h, b)" and e: "deref_list h (messages b) = []" by simp_all
  from run_view [OF w, of calls] obtain h1 where
    r: "run calls (h, b) = (h1, b)" and w1: "well_formed (h1, b)"
    and v: "deref_list h1 (messages b) = map (message_dict \<circ> message_of) calls"
    using e by auto
  from build_messages_view [OF w1] v r s show ?thesis
    by (auto simp: len_view)
qed

lemma build_string_loop_lines:
  assumes "map message_fields (map (\<lambda>a. dicts h ! a) as) = map Some ms"
  shows "build_string_loop h as parts = Inr (parts @ map line_of ms)"
  using assms
proof (induction as arbitrary: ms parts)
  case Nil
  then show ?case by simp
next
  case (Cons a as)
  then obtain m ms' where ms: "ms = m # ms'" by (cases ms) auto
  with Cons.prems have f: "message_fields (dicts h ! a) = Some m"
    and r: "map message_fields (map (\<lambda>a. dicts h ! a) as) = map Some ms'"
    by simp_all
  obtain role content where m: "m = (role, content)" by (cases m)
  from f m have "(dicts h ! a) ''role'' = Some role" "(dicts h ! a) ''content'' = Some content"
    by (auto simp: message_fields_def split: option.splits)
  with Cons.IH [OF r] ms m show ?case by (simp add: line_of_def)
qed

lemma build_string_loop_cong:
  assumes "\<forall>a \<in> set as. dicts h' ! a = dicts h ! a"
  shows "build_string_loop h' as parts = build_string_loop h as parts"
  using assms
  by (induction as arbitrary: parts) (auto split: option.splits)

lemma observe_build_frame:
  assumes l: "lists h' ! messages b = lists h ! messages b"
    and d: "\<forall>a \<in> set (lists h ! messages b). dicts h' ! a = dicts h ! a"
  shows "observe (build fmt (h', b)) = observe (build fmt (h, b))"
proof -
  have "build_string (h', b) = build_string (h, b)"
    using build_string_loop_cong [OF d] l by (simp add: build_string_def)
  moreover have "deref_list h' (messages b) = deref_list h (messages b)"
    using l d by (simp add: deref_list_def)
  ultimately show ?thesis
    by (auto simp: build_def observe_def build_chat_format_def list_copy_def new_list_def
        deref_list_def split: sum.splits)
qed

text \<open>
  C9. A format selector other than "messages", "string" and "chat" makes \<open>build\<close> raise
  \<open>ValueError\<close> with the message "Unknown format: " followed by the selector, and the
  store and the builder are as they were before the call.
\<close>

theorem build_unknown_format:
  assumes "fmt \<noteq> ''messages''" and "fmt \<noteq> ''string''" and "fmt \<noteq> ''chat''"
  shows "build fmt (h, b) = (Inl (ValueError (''Unknown format: '' @ fmt)), (h, b))"
  using assms by (simp add: build_def)

theorem build_unknown_format_witness:
  "''bogus'' \<noteq> ''messages'' \<and> ''bogus'' \<noteq> ''string'' \<and> ''bogus'' \<noteq> ''chat''
   \<and> build ''bogus'' (add_user ''Test'' (builder_init \<lparr>lists = [], dicts = []\<rparr>))
       = (Inl (ValueError ''Unknown format: bogus''),
          add_user ''Test'' (builder_init \<lparr>lists = [], dicts = []\<rparr>))"
proof -
  obtain h b where s: "add_user ''Test'' (builder_init \<lparr>lists = [], dicts = []\<rparr>) = (h, b)"
    by (cases "add_user ''Test'' (builder_init \<lparr>lists = [], dicts = []\<rparr>)")
  have n: "''bogus'' \<noteq> ''messages''" "''bogus'' \<noteq> ''string''" "''bogus'' \<noteq> ''chat''"
    by simp_all
  show ?thesis
    using build_unknown_format [OF n, of h b] n by (simp add: s)
qed

text \<open>
  C7. After any sequence of N calls of \<open>add_system\<close>, \<open>add_user\<close>, \<open>add_assistant\<close> and
  \<open>add_message\<close> on a builder fresh from \<open>__init__\<close> or from \<open>clear\<close>, the length of the
  builder is N and \<open>build("messages")\<close> returns a list of exactly the N role/content
  dicts of the calls, in the order of the calls, repeats included.
\<close>

theorem add_calls_count_and_order:
  "builder_len (run calls (builder_init h)) = length calls
   \<and> (\<exists>l h' b'. build ''messages'' (run calls (builder_init h)) = (Inr (Messages l), (h', b'))
         \<and> deref_list h' l = map (message_dict \<circ> message_of) calls)
   \<and> builder_len (run calls (clear s)) = length calls
   \<and> (\<exists>l h' b'. build ''messages'' (run calls (clear s)) = (Inr (Messages l), (h', b'))
         \<and> deref_list h' l = map (message_dict \<circ> message_of) calls)"
  using fresh_run [OF well_formed_builder_init, where calls = calls and h1 = h]
    fresh_run [OF well_formed_clear, where calls = calls and s1 = s]
  by blast

lemma join_concat:
  "join sep xs = (case xs of [] \<Rightarrow> [] | l # ls \<Rightarrow> l @ concat (map (\<lambda>x. sep @ x) ls))"
  by (induction sep xs rule: join.induct) simp_all

text \<open>
  C8, as the code has it. In a state where every message has a role and a content,
  \<open>build("string")\<close> returns the lines of the messages in insertion order, each the
  upper-cased role, then ": ", then the content, with two newlines before every line
  but the first, and leaves the state alone; \<open>__str__\<close> returns the same string.
\<close>

theorem build_string_format:
  assumes "map message_fields (deref_list h (messages b)) = map Some ms"
  shows "build ''string'' (h, b)
           = (Inr (String (case map line_of ms of
                             [] \<Rightarrow> []
                           | l # ls \<Rightarrow> l @ concat (map (\<lambda>x. [10, 10] @ x) ls))),
              (h, b))
       \<and> builder_str (h, b)
           = Inr (case map line_of ms of
                    [] \<Rightarrow> []
                  | l # ls \<Rightarrow> l @ concat (map (\<lambda>x. [10, 10] @ x) ls))"
  using build_string_loop_lines [of h "lists h ! messages b" ms "[]"] assms
  by (simp add: build_def build_string_def builder_str_def deref_list_def join_concat)

theorem build_string_format_witness:
  "map message_fields
     (deref_list (fst (run [AddSystem ''Be brief'', AddMessage [CHR 0xDF] ''hi''] (builder_init empty_heap)))
        (messages (snd (run [AddSystem ''Be brief'', AddMessage [CHR 0xDF] ''hi''] (builder_init empty_heap)))))
     = map Some [(''system'', ''Be brief''), ([CHR 0xDF], ''hi'')]
   \<and> fst (build ''string'' (run [AddSystem ''Be brief'', AddMessage [CHR 0xDF] ''hi''] (builder_init empty_heap)))
       = Inr (String (code_points ''SYSTEM: Be brief'' @ [10, 10] @ code_points ''SS: hi''))
   \<and> builder_str (run [AddSystem ''Be brief'', AddMessage [CHR 0xDF] ''hi''] (builder_init empty_heap))
       = Inr (code_points ''SYSTEM: Be brief'' @ [10, 10] @ code_points ''SS: hi'')"
proof -
  obtain h b where s: "run [AddSystem ''Be brief'', AddMessage [CHR 0xDF] ''hi''] (builder_init empty_heap) = (h, b)"
    by (cases "run [AddSystem ''Be brief'', AddMessage [CHR 0xDF] ''hi''] (builder_init empty_heap)")
  from run_view [OF well_formed_builder_init(1) [of empty_heap, unfolded builder_init_def new_list_def Let_def prod.case],
      of "[AddSystem ''Be brief'', AddMessage [CHR 0xDF] ''hi'']"] s
  have v: "map message_fields (deref_list h (messages b))
             = map Some [(''system'', ''Be brief''), ([CHR 0xDF], ''hi'')]"
    by (auto simp: builder_init_def new_list_def empty_heap_def deref_list_def
        message_fields_def message_dict_def)
  from build_string_format [OF v] v show ?thesis
    by (simp add: s line_of_def upper_def upper_char_def code_points_def)
qed

text \<open>
  A message dict can lose a key through the list that \<open>build("messages")\<close> returns:
  after \<open>del result[0]["role"]\<close>, \<open>build("string")\<close> raises \<open>KeyError\<close>.
\<close>

theorem build_string_missing_role_counterexample:
  "fst (build ''messages'' (add_user ''hi'' (builder_init empty_heap))) = Inr (Messages 1)
   \<and> lists (fst (snd (build ''messages'' (add_user ''hi'' (builder_init empty_heap))))) ! 1 = [0]
   \<and> (case dict_delitem 0 ''role''
              (fst (snd (build ''messages'' (add_user ''hi'' (builder_init empty_heap))))) of
         Inl e \<Rightarrow> False
       | Inr h2 \<Rightarrow>
           fst (build ''string''
                  (h2, snd (snd (build ''messages'' (add_user ''hi'' (builder_init empty_heap))))))
             = Inl (KeyError ''role''))"
  by (simp add: builder_init_def empty_heap_def new_list_def add_user_def new_dict_def
      list_append_def build_def list_copy_def build_string_def dict_delitem_def)

text \<open>
  C1, as the code has it. \<open>build("messages")\<close> returns a new list object with the
  builder's message references in order. Whatever is then written to that list object
  (and to objects allocated afterwards) leaves the builder's own list and its dicts as
  they were, so its length and every later \<open>build\<close> are the same as without the writes.
\<close>

theorem build_messages_copy_frame:
  assumes w: "well_formed (h, b)"
    and r: "build ''messages'' (h, b) = (Inr (Messages l), (h1, b1))"
    and m: "list_mutation l h1 h2"
  shows "b1 = b
       \<and> deref_list h1 l = deref_list h (messages b)
       \<and> deref_list h2 (messages b) = deref_list h (messages b)
       \<and> builder_len (h2, b) = builder_len (h, b)
       \<and> (\<forall>fmt. observe (build fmt (h2, b)) = observe (build fmt (h1, b)))"
proof -
  from r have l: "l = length (lists h)" and h1: "h1 = h\<lparr>lists := lists h @ [lists h ! messages b]\<rparr>"
    and b1: "b1 = b"
    by (auto simp: build_def list_copy_def new_list_def)
  from w have lt: "messages b < length (lists h)"
    and refs: "\<forall>a \<in> set (lists h ! messages b). a < length (dicts h)"
    by (auto simp: well_formed_def)
  from lt l have ne: "messages b \<noteq> l" by simp
  have l1: "lists h1 ! messages b = lists h ! messages b"
    using lt by (simp add: h1 nth_append)
  have l2: "lists h2 ! messages b = lists h1 ! messages b"
    using m lt ne by (simp add: list_mutation_def h1)
  have d2: "\<forall>a \<in> set (lists h1 ! messages b). dicts h2 ! a = dicts h1 ! a"
    using m refs l1 by (simp add: list_mutation_def h1)
  have v1: "deref_list h1 l = deref_list h (messages b)"
    by (simp add: deref_list_def h1 l)
  have v2: "deref_list h2 (messages b) = deref_list h (messages b)"
    using l1 l2 d2 by (simp add: deref_list_def h1)
  have n: "builder_len (h2, b) = builder_len (h, b)"
    using l1 l2 by (simp add: builder_len_def)
  from observe_build_frame [OF l2 d2] b1 v1 v2 n show ?thesis by simp
qed

lemma example_state:
  "run [AddSystem ''Be brief'', AddUser ''hi''] (builder_init empty_heap)
     = (\<lparr>lists = [[0, 1]],
         dicts = [[''role'' \<mapsto> ''system'', ''content'' \<mapsto> ''Be brief''],
                  [''role'' \<mapsto> ''user'', ''content'' \<mapsto> ''hi'']]\<rparr>,
        \<lparr>messages = 0, context_map = Map.empty\<rparr>)"
  by (simp add: run_def builder_init_def empty_heap_def new_list_def add_system_def add_user_def
      new_dict_def list_append_def)

theorem build_messages_copy_frame_witness:
  "well_formed (run [AddSystem ''Be brief'', AddUser ''hi''] (builder_init empty_heap))
   \<and> build ''messages'' (run [AddSystem ''Be brief'', AddUser ''hi''] (builder_init empty_heap))
       = (Inr (Messages 1),
          (\<lparr>lists = [[0, 1], [0, 1]],
            dicts = [[''role'' \<mapsto> ''system'', ''content'' \<mapsto> ''Be brief''],
                     [''role'' \<mapsto> ''user'', ''content'' \<mapsto> ''hi'']]\<rparr>,
           \<lparr>messages = 0, context_map = Map.empty\<rparr>))
   \<and> list_mutation 1
        \<lparr>lists = [[0, 1], [0, 1]],
          dicts = [[''role'' \<mapsto> ''system'', ''content'' \<mapsto> ''Be brief''],
                   [''role'' \<mapsto> ''user'', ''content'' \<mapsto> ''hi'']]\<rparr>
        \<lparr>lists = [[0, 1], [2, 0]],
          dicts = [[''role'' \<mapsto> ''system'', ''content'' \<mapsto> ''Be brief''],
                   [''role'' \<mapsto> ''user'', ''content'' \<mapsto> ''hi''],
                   [''role'' \<mapsto> ''user'', ''content'' \<mapsto> ''injected'']]\<rparr>
   \<and> observe (build ''string''
        (\<lparr>lists = [[0, 1], [2, 0]],
          dicts = [[''role'' \<mapsto> ''system'', ''content'' \<mapsto> ''Be brief''],
                   [''role'' \<mapsto> ''user'', ''content'' \<mapsto> ''hi''],
                   [''role'' \<mapsto> ''user'', ''content'' \<mapsto> ''injected'']]\<rparr>,
         \<lparr>messages = 0, context_map = Map.empty\<rparr>))
       = Inr (ObsString (code_points ''SYSTEM: Be brief'' @ [10, 10] @ code_points ''USER: hi''))"
proof -
  let ?h = "\<lparr>lists = [[0, 1]],
         dicts = [[''role'' \<mapsto> ''system'', ''content'' \<mapsto> ''Be brief''],
                  [''role'' \<mapsto> ''user'', ''content'' \<mapsto> ''hi'']]\<rparr>"
  let ?b = "\<lparr>messages = 0, context_map = Map.empty\<rparr>"
  let ?h1 = "\<lparr>lists = [[0, 1], [0, 1]],
            dicts = [[''role'' \<mapsto> ''system'', ''content'' \<mapsto> ''Be brief''],
                     [''role'' \<mapsto> ''user'', ''content'' \<mapsto> ''hi'']]\<rparr>"
  let ?h2 = "\<lparr>lists = [[0, 1], [2, 0]],
          dicts = [[''role'' \<mapsto> ''system'', ''content'' \<mapsto> ''Be brief''],
                   [''role'' \<mapsto> ''user'', ''content'' \<mapsto> ''hi''],
                   [''role'' \<mapsto> ''user'', ''content'' \<mapsto> ''injected'']]\<rparr>"
  have w: "well_formed (?h, ?b)"
    by (simp add: well_formed_def)
  have r: "build ''messages'' (?h, ?b) = (Inr (Messages 1), (?h1, ?b))"
    by (simp add: build_def list_copy_def new_list_def)
  have m: "list_mutation 1 ?h1 ?h2"
    by (simp add: list_mutation_def less_Suc_eq numeral_2_eq_2)
  have o: "observe (build ''string'' (?h1, ?b))
       = Inr (ObsString (code_points ''SYSTEM: Be brief'' @ [10, 10] @ code_points ''USER: hi''))"
    by (simp add: observe_def build_def build_string_def upper_def upper_char_def
        code_points_def)
  from build_messages_copy_frame [OF w r m] w r m o show ?thesis
    by (simp add: example_state)
qed

text \<open>
  The dicts in the returned list are the builder's own: after \<open>result[0]["content"] =
  "changed"\<close> on the list returned by \<open>build("messages")\<close>, \<open>build("string")\<close> gives
  another string than before.
\<close>

theorem build_messages_record_mutation_counterexample:
  "fst (build ''messages'' (add_user ''hi'' (builder_init empty_heap))) = Inr (Messages 1)
   \<and> lists (fst (snd (build ''messages'' (add_user ''hi'' (builder_init empty_heap))))) ! 1 = [0]
   \<and> observe (build ''string'' (snd (build ''messages'' (add_user ''hi'' (builder_init empty_heap)))))
       = Inr (ObsString (code_points ''USER: hi''))
   \<and> observe (build ''string''
        (dict_setitem 0 ''content'' ''changed''
           (fst (snd (build ''messages'' (add_user ''hi'' (builder_init empty_heap))))),
         snd (snd (build ''messages'' (add_user ''hi'' (builder_init empty_heap))))))
       = Inr (ObsString (code_points ''USER: changed''))"
  by (simp add: builder_init_def empty_heap_def new_list_def add_user_def new_dict_def
      list_append_def build_def list_copy_def observe_def build_string_def upper_def
      upper_char_def dict_setitem_def code_points_def)

section \<open>Properties of PromptTemplate\<close>

lemma re_findall_Nil: "re_findall [] = []"
  by (subst re_findall.simps) simp

lemma re_findall_Cons:
  "re_findall (c # cs) =
     (case re_match (c # cs) of
        Some (g, rest) \<Rightarrow> g # re_findall rest
      | None \<Rightarrow> re_findall cs)"
  by (subst re_findall.simps) (simp split: option.split)

lemma spec_spans_Nil: "spec_spans [] = []"
  by (subst spec_spans.simps) simp

lemma re_findall_None:
  "re_match s = None \<Longrightarrow> re_findall s = (if s = [] then [] else re_findall (tl s))"
  by (subst re_findall.simps) simp

lemma re_findall_Some:
  "re_match s = Some (g, rest) \<Longrightarrow> re_findall s = g # re_findall rest"
  by (subst re_findall.simps) (auto simp: re_match_def)

lemma re_match_no_close:
  assumes "CHR ''}'' \<notin> set cs"
  shows "re_match (c # cs) = None"
proof -
  from assms have "\<forall>x \<in> set cs. x \<noteq> CHR ''}''" by blast
  then have "dropWhile (\<lambda>c. c \<noteq> CHR ''}'') cs = []"
    by (simp add: dropWhile_eq_Nil_conv)
  then show ?thesis
    unfolding re_match_def by (simp del: dropWhile_eq_Nil_conv)
qed

lemma re_findall_no_close:
  "CHR ''}'' \<notin> set s \<Longrightarrow> re_findall s = []"
proof (induction s)
  case Nil
  show ?case by (rule re_findall_Nil)
next
  case (Cons c cs)
  then have n: "re_match (c # cs) = None" and r: "re_findall cs = []"
    by (simp_all add: re_match_no_close)
  show ?case
    by (subst re_findall_Cons) (simp add: n r)
qed

lemma re_findall_skip:
  "c \<noteq> CHR ''{'' \<Longrightarrow> re_findall (c # cs) = re_findall cs"
  by (simp add: re_findall_Cons re_match_def)

lemma spec_spans_skip:
  "c \<noteq> CHR ''{'' \<Longrightarrow> spec_spans (c # cs) = spec_spans cs"
  by (simp add: spec_spans.simps [of "c # cs"] spec_spans.simps [of cs])

lemma spec_spans_open:
  "spec_spans (CHR ''{'' # cs) =
     (case dropWhile (\<lambda>c. c \<noteq> CHR ''}'') cs of
        [] \<Rightarrow> []
      | d # rest \<Rightarrow> takeWhile (\<lambda>c. c \<noteq> CHR ''}'') cs # spec_spans rest)"
  by (subst spec_spans.simps) simp

lemma get_variables_spans_aux:
  "re_findall s = filter (\<lambda>n. n \<noteq> []) (spec_spans s)"
proof (induction s rule: length_induct)
  case (1 s)
  show ?case
  proof (cases s)
    case Nil
    then show ?thesis by (simp add: re_findall_Nil spec_spans_Nil)
  next
    case (Cons c cs)
    show ?thesis
    proof (cases "c = CHR ''{''")
      case False
      with 1 Cons show ?thesis by (simp add: re_findall_skip spec_spans_skip)
    next
      case opn: True
      show ?thesis
      proof (cases "dropWhile (\<lambda>c. c \<noteq> CHR ''}'') cs")
        case Nil
        then have "\<forall>x \<in> set cs. x \<noteq> CHR ''}''"
          by (simp add: dropWhile_eq_Nil_conv)
        then have nc: "CHR ''}'' \<notin> set cs" by blast
        then have a: "re_findall cs = []" by (rule re_findall_no_close)
        from nc have "re_match s = None" by (simp add: Cons re_match_no_close)
        with a have "re_findall s = []" by (simp add: re_findall_None Cons)
        moreover from Nil opn have "spec_spans s = []"
          by (simp only: Cons spec_spans_open list.case)
        ultimately show ?thesis by simp
      next
        case d: (Cons d rest)
        then have d': "d = CHR ''}''"
          using hd_dropWhile [of "\<lambda>c. c \<noteq> CHR ''}''" cs] by auto
        have "length rest < length s"
          using length_dropWhile_le [of "\<lambda>c. c \<noteq> CHR ''}''" cs] d Cons by simp
        with 1 have ih: "re_findall rest = filter (\<lambda>n. n \<noteq> []) (spec_spans rest)" by blast
        have sp: "spec_spans s = takeWhile (\<lambda>c. c \<noteq> CHR ''}'') cs # spec_spans rest"
          using opn d by (simp only: Cons spec_spans_open list.case)
        show ?thesis
        proof (cases "takeWhile (\<lambda>c. c \<noteq> CHR ''}'') cs = []")
          case False
          with d opn have "re_match s = Some (takeWhile (\<lambda>c. c \<noteq> CHR ''}'') cs, rest)"
            by (simp add: re_match_def Cons)
          then have "re_findall s = takeWhile (\<lambda>c. c \<noteq> CHR ''}'') cs # re_findall rest"
            by (rule re_findall_Some)
          with sp ih False show ?thesis by simp
        next
          case True
          with d d' have cs: "cs = CHR ''}'' # rest"
            using takeWhile_dropWhile_id [of "\<lambda>c. c \<noteq> CHR ''}''" cs] by simp
          from True have "re_match s = None" by (simp add: re_match_def Cons)
          then have "re_findall s = re_findall cs" by (simp add: re_findall_None Cons)
          also have "\<dots> = re_findall rest" by (simp add: cs re_findall_skip)
          finally show ?thesis using sp ih True by simp
        qed
      qed
    qed
  qed
qed

text \<open>
  C4, as the code has it. \<open>get_variables\<close> returns, in order of appearance, the
  texts between a \<open>{\<close> and the next \<open>}\<close> of the spans found from left to right, taken
  as they are, except that a span with nothing between its braces gives no identifier.
\<close>

theorem get_variables_spans:
  "get_variables t = filter (\<lambda>n. n \<noteq> []) (spec_spans (template t))"
  by (simp add: get_variables_def get_variables_spans_aux)

text \<open>
  On the template \<open>{}\<close> the scan of the specification finds one span, with the empty
  identifier, and \<open>get_variables\<close> returns no identifier.
\<close>

theorem get_variables_empty_span_counterexample:
  "get_variables \<lparr>template = ''{}'', defaults = Map.empty\<rparr> = []
   \<and> spec_spans ''{}'' = [[]]
   \<and> get_variables \<lparr>template = ''{}'', defaults = Map.empty\<rparr>
       \<noteq> spec_spans (template \<lparr>template = ''{}'', defaults = Map.empty\<rparr>)"
  by (simp add: get_variables_def re_findall_Cons re_findall_Nil re_match_def
      spec_spans_open spec_spans_Nil)

lemma re_match_group:
  "re_match s = Some (g, rest) \<Longrightarrow> g \<noteq> [] \<and> CHR ''}'' \<notin> set g"
  by (auto simp: re_match_def split: list.splits if_splits dest: set_takeWhileD)

lemma re_findall_groups:
  "n \<in> set (re_findall s) \<Longrightarrow> n \<noteq> [] \<and> CHR ''}'' \<notin> set n"
proof (induction s rule: re_findall.induct)
  case (1 s)
  show ?case
  proof (cases "s = []")
    case True
    with 1 show ?thesis by (simp add: re_findall_Nil)
  next
    case False
    show ?thesis
    proof (cases "re_match s")
      case None
      with 1 False show ?thesis by (simp add: re_findall_None)
    next
      case (Some p)
      obtain g rest where p: "p = (g, rest)" by (cases p)
      with 1 False Some re_match_group [of s g rest] show ?thesis
        by (auto simp: re_findall_Some)
    qed
  qed
qed

text \<open>
  C10. Every identifier that \<open>get_variables\<close> returns is non-empty and has no \<open>}\<close> in
  it; the template \<open>{}\<close> has no identifier.
\<close>

theorem get_variables_nonempty:
  "(\<forall>n \<in> set (get_variables t). n \<noteq> [] \<and> CHR ''}'' \<notin> set n)
   \<and> get_variables (t\<lparr>template := ''{}''\<rparr>) = []"
proof -
  have "re_findall ''{}'' = []"
    by (simp add: re_findall_Cons re_findall_Nil re_match_def)
  then show ?thesis
    using re_findall_groups [of _ "template t"] by (auto simp: get_variables_def)
qed

theorem get_variables_nonempty_witness:
  "get_variables \<lparr>template = ''Hello {name}{}, you are {age}'', defaults = Map.empty\<rparr>
     = [''name'', ''age'']
   \<and> ''name'' \<noteq> [] \<and> CHR ''}'' \<notin> set ''name''"
proof -
  have g: "get_variables \<lparr>template = ''Hello {name}{}, you are {age}'', defaults = Map.empty\<rparr>
     = [''name'', ''age'']"
    by (simp add: get_variables_def re_findall_Cons re_findall_Nil re_match_def)
  show ?thesis
    using get_variables_nonempty [of "\<lparr>template = ''Hello {name}{}, you are {age}'', defaults = Map.empty\<rparr>"] g
    by simp
qed

lemma merge_effective: "defaults t ++ overrides = effective t overrides"
  by (rule ext) (simp add: effective_def map_add_def)

text \<open>
  C5, as the code has it. Called with no override named \<open>self\<close>, \<open>validate\<close> returns a
  boolean and does not raise: true exactly when every identifier of \<open>get_variables\<close> is
  a key of the effective mapping, false otherwise; and it leaves the template as it was.
\<close>

theorem validate_covers:
  assumes "overrides ''self'' = None"
  shows "fst (validate t overrides)
           = Inr (\<forall>n \<in> set (get_variables t). n \<in> dom (effective t overrides))
       \<and> snd (validate t overrides) = t"
  using assms by (auto simp: validate_def merge_effective)

theorem validate_covers_witness:
  "[''name'' \<mapsto> VStr ''Alice''] ''self'' = None
   \<and> fst (validate \<lparr>template = ''Hello {name}, you are {age}'', defaults = [''name'' \<mapsto> VStr ''World'']\<rparr>
         [''name'' \<mapsto> VStr ''Alice''])
     = Inr False
   \<and> ''age'' \<in> set (get_variables \<lparr>template = ''Hello {name}, you are {age}'', defaults = [''name'' \<mapsto> VStr ''World'']\<rparr>)
   \<and> ''age'' \<notin> dom (effective \<lparr>template = ''Hello {name}, you are {age}'', defaults = [''name'' \<mapsto> VStr ''World'']\<rparr>
         [''name'' \<mapsto> VStr ''Alice''])
   \<and> fst (validate \<lparr>template = ''Hello {name}, you are {age}'', defaults = [''name'' \<mapsto> VStr ''World'']\<rparr>
         [''age'' \<mapsto> VObj (Inr ''30'')])
     = Inr True"
proof -
  have g: "get_variables \<lparr>template = ''Hello {name}, you are {age}'', defaults = [''name'' \<mapsto> VStr ''World'']\<rparr>
     = [''name'', ''age'']"
    by (simp add: get_variables_def re_findall_Cons re_findall_Nil re_match_def)
  have a: "[''name'' \<mapsto> VStr ''Alice''] ''self'' = None"
    and b: "[''age'' \<mapsto> VObj (Inr ''30'')] ''self'' = None"
    by simp_all
  show ?thesis
    using validate_covers [of "[''name'' \<mapsto> VStr ''Alice'']"
        "\<lparr>template = ''Hello {name}, you are {age}'', defaults = [''name'' \<mapsto> VStr ''World'']\<rparr>", OF a]
      validate_covers [of "[''age'' \<mapsto> VObj (Inr ''30'')]"
        "\<lparr>template = ''Hello {name}, you are {age}'', defaults = [''name'' \<mapsto> VStr ''World'']\<rparr>", OF b]
    by (simp add: g effective_def dom_def)
qed

text \<open>
  An override named \<open>self\<close> collides with the parameter of the method: on the template
  \<open>{self}\<close> with the override \<open>self = "x"\<close>, the one identifier is a key of the effective
  mapping, and the call raises \<open>TypeError\<close> where the specification has it return true.
\<close>

theorem validate_self_counterexample:
  "fst (validate \<lparr>template = ''{self}'', defaults = Map.empty\<rparr> [''self'' \<mapsto> VStr ''x''])
     = Inl (TypeError (''PromptTemplate.validate() got multiple values for argument ''
                         @ [CHR 0x27] @ ''self'' @ [CHR 0x27]))
   \<and> get_variables \<lparr>template = ''{self}'', defaults = Map.empty\<rparr> = [''self'']
   \<and> ''self'' \<in> dom (effective \<lparr>template = ''{self}'', defaults = Map.empty\<rparr>
                        [''self'' \<mapsto> VStr ''x''])"
  by (simp add: validate_def multiple_values_def get_variables_def re_findall_Cons
      re_findall_Nil re_match_def effective_def dom_def)

text \<open>
  C6. \<open>format\<close> and \<open>validate\<close>, succeeding or failing, leave the template and its
  defaults as they were, and a later call gives what it would have given without the
  earlier call and its overrides.
\<close>

theorem defaults_never_mutated:
  "snd (format t overrides) = t
   \<and> snd (validate t overrides) = t
   \<and> defaults (snd (format t overrides)) = defaults t
   \<and> defaults (snd (validate t overrides)) = defaults t
   \<and> fst (format (snd (format t overrides)) later) = fst (format t later)
   \<and> fst (format (snd (validate t overrides)) later) = fst (format t later)
   \<and> fst (validate (snd (format t overrides)) later) = fst (validate t later)
   \<and> fst (validate (snd (validate t overrides)) later) = fst (validate t later)"
proof -
  have f: "snd (format t overrides) = t"
    by (simp add: format_def Let_def split: sum.split error.split)
  have v: "snd (validate t overrides) = t"
    by (simp add: validate_def Let_def)
  show ?thesis by (simp add: f v)
qed

subsection \<open>Formatting\<close>









lemma markup_Nil: "markup [] = []"
  by (subst markup.simps) simp
















lemma markup_Cons:
  "markup (a # s) =
     (case dropWhile (\<lambda>c. \<not> is_brace c) (a # s) of
        [] \<Rightarrow> [Literal (a # s)]
      | c # rest \<Rightarrow>
          if c = CHR ''}'' \<and> (rest = [] \<or> hd rest \<noteq> CHR ''}'') then
            [Bad (ValueError ''Single '}' encountered in format string'')]
          else if c = CHR ''{'' \<and> rest = [] then
            [Bad (ValueError ''Single '{' encountered in format string'')]
          else if hd rest = c then
            Literal (takeWhile (\<lambda>c. \<not> is_brace c) (a # s) @ [c]) # markup (tl rest)
          else
            (case parse_field rest of
               Inl e \<Rightarrow> [Bad e]
             | Inr (f, rest1) \<Rightarrow>
                 Literal (takeWhile (\<lambda>c. \<not> is_brace c) (a # s)) # Field f # markup rest1))"
  by (subst markup.simps) simp



lemma decimal_more: "\<not> n < 10 \<Longrightarrow> decimal n = decimal (n div 10) @ [''0123456789'' ! (n mod 10)]"
  by (subst decimal.simps) simp

text \<open>
  The reading of a number stops with \<open>ValueError\<close> at the digit that overflows, also when
  a character that is not a digit comes later; \<open>sys.maxsize\<close> itself is still an index.
\<close>

lemma get_integer_overflow:
  "get_integer ''9223372036854775807'' = Inr (Some 9223372036854775807)
   \<and> get_integer ''9223372036854775808''
       = Inl (ValueError ''Too many decimal digits in format string'')
   \<and> get_integer ''9999999999999999999a''
       = Inl (ValueError ''Too many decimal digits in format string'')
   \<and> get_integer ''9223372036854775807a'' = Inr None
   \<and> get_integer ''0001'' = Inr (Some 1)
   \<and> get_integer [] = Inr None"
  by (simp add: get_integer_def is_digit_def digit_value_def ssize_t_max_def)

lemma format_overflow:
  "fst (format \<lparr>template = ''{9999999999999999999a}'', defaults = Map.empty\<rparr> Map.empty)
     = Inl (ValueError ''Too many decimal digits in format string'')"
  by (simp add: format_def str_format_def markup_Cons markup_Nil is_brace_def parse_field_def
      render_field_def is_digit_def get_integer_def digit_value_def ssize_t_max_def)

text \<open>An override named \<open>self\<close> never reaches the body of \<open>format\<close>.\<close>

lemma format_self:
  "fst (format \<lparr>template = ''{self}'', defaults = Map.empty\<rparr> [''self'' \<mapsto> VStr ''x''])
     = Inl (TypeError (''PromptTemplate.format() got multiple values for argument ''
                         @ [CHR 0x27] @ ''self'' @ [CHR 0x27]))"
  by (simp add: format_def multiple_values_def)







end
